theory Spec2Isabelle
  imports Main
begin

section \<open>Exceptions, outcomes and the outside world\<close>

text \<open>
  The module \<^verbatim>\<open>vpnc/__init__.py\<close> is glue around external programs. Its functions are
  modelled as functions on an explicit world; an exception is a value of the outcome.
  An argument list handed to \<^verbatim>\<open>subprocess.Popen\<close> is a list of strings, and the bytes
  captured from a process are a string (a list of 8-bit characters).
\<close>

type_synonym argv = "string list"

text \<open>
  \<^verbatim>\<open>class ProcessException(Exception)\<close>: the four attributes its constructor stores.
\<close>

record ProcessException =
  returncode :: int
  cmd :: argv
  stdout :: string
  stderr :: string

text \<open>
  The exception classes that occur. \<open>ProcessFailure\<close> holds an instance of the module's
  own class \<^verbatim>\<open>ProcessException\<close>, which derives from \<^verbatim>\<open>Exception\<close> directly.
  \<open>CalledProcessError\<close> is the class of the standard \<^verbatim>\<open>subprocess\<close> module that
  \<^verbatim>\<open>remove_config_file\<close> names in its \<^verbatim>\<open>except\<close> clause; nothing in the module raises it.
\<close>

datatype exn =
    ProcessFailure ProcessException
  | CalledProcessError int argv
  | KeyError string
  | TypeError string
  | OSError string
  | UnicodeEncodeError string
  | RuntimeError string
  | OtherError string

datatype 'a outcome = Returns 'a | Raises exn

text \<open>
  The world: the text files by path, and the argument lists passed to \<^verbatim>\<open>Popen\<close> so far,
  oldest first. The list of calls is what the ordering claims are stated on.
\<close>

record world =
  files :: "string \<rightharpoonup> string"
  calls :: "argv list"

text \<open>
  What \<^verbatim>\<open>Popen(cmd, ...)\<close> followed by \<^verbatim>\<open>communicate()\<close> can do: fail to start the
  program (an \<^verbatim>\<open>OSError\<close>), or run it to its end, giving the return code (negative when a
  signal ended the process), the captured standard output and the captured standard error.
\<close>

datatype proc_result = Spawn_failed string | Exited int string string

text \<open>
  The operating system is a parameter. \<open>spawn\<close> gives the result of running a command in
  a world, and the files the command leaves behind; it may depend on the calls made so
  far. \<open>open_error\<close> says whether \<^verbatim>\<open>open(path, "w+")\<close> fails, and with which message.
  \<open>write_error\<close> says whether writing a text to the opened file at a path fails, up to
  the closing of the file: the encoding of the text-mode file cannot take the text
  (\<^verbatim>\<open>UnicodeEncodeError\<close>), or the system refuses the write (\<^verbatim>\<open>OSError\<close>). It gives the
  exception and what the file holds afterwards. Whether an encoding can take a text is
  not a property of the list of characters here, so it is part of the parameter.
\<close>

record opsys =
  spawn :: "argv \<Rightarrow> world \<Rightarrow> proc_result \<times> (string \<rightharpoonup> string)"
  open_error :: "string \<Rightarrow> world \<Rightarrow> string option"
  write_error :: "string \<Rightarrow> string \<Rightarrow> world \<Rightarrow> (exn \<times> string) option"

text \<open>Sequencing of two statements: an exception in the first skips the second.\<close>

definition then_run ::
  "'a outcome \<times> world \<Rightarrow> ('a \<Rightarrow> world \<Rightarrow> 'b outcome \<times> world) \<Rightarrow> 'b outcome \<times> world" where
  "then_run r k = (case r of (Raises e, w) \<Rightarrow> (Raises e, w) | (Returns a, w) \<Rightarrow> k a w)"

section \<open>process_call\<close>

text \<open>
  \<^verbatim>\<open>
  def process_call(cmd):
      process = subprocess.Popen(cmd, stdout=subprocess.PIPE, stderr=subprocess.PIPE)
      stdout, stderr = process.communicate()
      if process.returncode:
          raise ProcessException(process.returncode, process.args, stdout, stderr)
      return process.returncode, stdout, stderr
  \<close>
  \<^verbatim>\<open>process.args\<close> is the argument list \<^verbatim>\<open>Popen\<close> was given. An integer is true in a
  condition when it is not zero.
\<close>

definition process_call ::
  "opsys \<Rightarrow> argv \<Rightarrow> world \<Rightarrow> (int \<times> string \<times> string) outcome \<times> world" where
  "process_call os c w =
     (case spawn os c w of
        (Spawn_failed msg, fs) \<Rightarrow>
          (Raises (OSError msg), w\<lparr>files := fs, calls := calls w @ [c]\<rparr>)
      | (Exited rc out err, fs) \<Rightarrow>
          (if rc \<noteq> 0
           then Raises (ProcessFailure
                  \<lparr>returncode = rc, cmd = c, stdout = out, stderr = err\<rparr>)
           else Returns (rc, out, err),
           w\<lparr>files := fs, calls := calls w @ [c]\<rparr>))"

section \<open>ProcessException.__str__\<close>

text \<open>
  The conversion \<^verbatim>\<open>%d\<close> of an integer: its decimal digits, after a minus sign when it is
  negative.
\<close>

definition digit_char :: "nat \<Rightarrow> char" where
  "digit_char n = ''0123456789'' ! (n mod 10)"

fun digits :: "nat \<Rightarrow> string" where
  "digits n = (if n < 10 then [digit_char n] else digits (n div 10) @ [digit_char n])"

declare digits.simps [simp del]

definition show_int :: "int \<Rightarrow> string" where
  "show_int i = (if i < 0 then CHR ''-'' # digits (nat (- i)) else digits (nat i))"

text \<open>
  \<^verbatim>\<open>%r\<close> of a member of the enumeration \<^verbatim>\<open>signal.Signals\<close>, as in
  \<^verbatim>\<open><Signals.SIGKILL: 9>\<close>: the member's name and its number.
\<close>

definition repr_Signals :: "string \<Rightarrow> int \<Rightarrow> string" where
  "repr_Signals name n = ''<Signals.'' @ name @ '': '' @ show_int n @ ''>''"

text \<open>
  \<^verbatim>\<open>
  def __str__(self):
      if self.returncode and self.returncode < 0:
          try:
              return "Command '%s' died with %r." % (
                  self.cmd, signal.Signals(-self.returncode))
          except ValueError:
              return "Command '%s' died with unknown signal %d." % (
                  self.cmd, -self.returncode)
      else:
          return "Command '%s' returned non-zero exit status %d." % (
              self.cmd, self.returncode)
  \<close>
  Two things of the Python library are parameters. \<open>signals\<close> is the platform's table
  \<^verbatim>\<open>signal.Signals\<close>, from a signal's number to its name; \<^verbatim>\<open>signal.Signals(n)\<close> raises
  \<^verbatim>\<open>ValueError\<close> where the table has no entry. \<open>str_of\<close> is \<^verbatim>\<open>str\<close> on a list of strings,
  which \<^verbatim>\<open>%s\<close> applies to the command. \<open>CHR 0x27\<close> is the apostrophe.
\<close>

definition ProcessException_str ::
  "(int \<rightharpoonup> string) \<Rightarrow> (argv \<Rightarrow> string) \<Rightarrow> ProcessException \<Rightarrow> string" where
  "ProcessException_str signals str_of e =
     (if returncode e \<noteq> 0 \<and> returncode e < 0 then
        (case signals (- returncode e) of
           Some name \<Rightarrow>
             ''Command '' @ [CHR 0x27] @ str_of (cmd e) @ [CHR 0x27] @ '' died with ''
               @ repr_Signals name (- returncode e) @ ''.''
         | None \<Rightarrow>
             ''Command '' @ [CHR 0x27] @ str_of (cmd e) @ [CHR 0x27]
               @ '' died with unknown signal '' @ show_int (- returncode e) @ ''.'')
      else
        ''Command '' @ [CHR 0x27] @ str_of (cmd e) @ [CHR 0x27]
          @ '' returned non-zero exit status '' @ show_int (returncode e) @ ''.'')"

section \<open>The class VPNC\<close>

subsection \<open>The constructor\<close>

text \<open>The attributes of an instance, once the constructor has returned.\<close>

record VPNC =
  config :: "string \<rightharpoonup> string"
  config_file :: string
  temp_config_path :: string
  config_folder :: string
  config_path :: string

text \<open>
  What the constructor reads from the interpreter: \<^verbatim>\<open>sys.platform\<close>, the module's
  directory \<^verbatim>\<open>HERE = os.path.dirname(os.path.realpath(__file__))\<close>, and the platform's
  \<^verbatim>\<open>os.path.join\<close> on two strings.
\<close>

record pyenv =
  sys_platform :: string
  HERE :: string
  os_path_join :: "string \<Rightarrow> string \<Rightarrow> string"

definition startswith :: "string \<Rightarrow> string \<Rightarrow> bool" where
  "startswith s p = (take (length p) s = p)"

text \<open>
  \<^verbatim>\<open>posixpath.join\<close> on two strings, which is \<^verbatim>\<open>os.path.join\<close> on Linux and on Darwin:
  a second part that starts with a slash replaces the first; otherwise the parts are put
  together with one slash between them, unless the first is empty or ends with a slash.
\<close>

definition posixpath_join :: "string \<Rightarrow> string \<Rightarrow> string" where
  "posixpath_join a b =
     (if startswith b ''/'' then b
      else if a = [] \<or> last a = CHR ''/'' then a @ b
      else a @ ''/'' @ b)"

definition default_config_file :: string where
  "default_config_file = ''tempvpnc.conf''"

text \<open>
  \<^verbatim>\<open>
  def __init__(self, config=None, config_file="tempvpnc.conf", config_folder=None):
      self.config = config or dict()
      self.config_file = config_file
      self.temp_config_path = os.path.join(HERE, self.config_file)
      self.config_folder = config_folder
      if config_folder is None:
          if sys.platform.startswith("linux"):
              self.config_folder = "/etc/vpnc"
          elif sys.platform.startswith("darwin"):
              self.config_folder = "/usr/local/etc/vpnc"
      self.config_path = os.path.join(self.config_folder, self.config_file)
  \<close>
  An argument left out or passed as \<^verbatim>\<open>None\<close> is \<open>None\<close>. The configuration is a dictionary
  from strings to strings. Where \<^verbatim>\<open>self.config_folder\<close> is still \<^verbatim>\<open>None\<close> in the last
  line, \<^verbatim>\<open>os.path.join\<close> raises \<^verbatim>\<open>TypeError\<close> (on every platform: it calls
  \<^verbatim>\<open>os.fspath\<close> on its first argument), and no instance is obtained.
\<close>

definition VPNC_init ::
  "pyenv \<Rightarrow> (string \<rightharpoonup> string) option \<Rightarrow> string \<Rightarrow> string option \<Rightarrow> exn + VPNC" where
  "VPNC_init env config_arg config_file_arg config_folder_arg =
     (let cfg = (case config_arg of None \<Rightarrow> Map.empty | Some c \<Rightarrow> c);
          tmp = os_path_join env (HERE env) config_file_arg;
          folder =
            (case config_folder_arg of
               Some f \<Rightarrow> Some f
             | None \<Rightarrow>
                 if startswith (sys_platform env) ''linux'' then Some ''/etc/vpnc''
                 else if startswith (sys_platform env) ''darwin'' then Some ''/usr/local/etc/vpnc''
                 else None)
      in case folder of
           None \<Rightarrow>
             Inl (TypeError ''expected str, bytes or os.PathLike object, not NoneType'')
         | Some f \<Rightarrow>
             Inr \<lparr>config = cfg, config_file = config_file_arg, temp_config_path = tmp,
                  config_folder = f, config_path = os_path_join env f config_file_arg\<rparr>)"

subsection \<open>create_config_file\<close>

text \<open>
  The format string of \<^verbatim>\<open>create_config_file\<close>, cut at its six conversions
  \<^verbatim>\<open>%(key)s\<close>: the text between them, and the key of each.
  \<^verbatim>\<open>
  "IPSec gateway %(IPSec_gateway)s\n"
  "IPSec ID %(IPSec_ID)s\n"
  "IPSec secret %(IPSec_secret)s\n"
  "IKE Authmode %(IKE_Authmode)s\n"
  "Xauth username %(Xauth_username)s\n"
  "Xauth password %(Xauth_password)s"
  \<close>
\<close>

datatype piece = Lit string | Field string

definition config_template :: "piece list" where
  "config_template =
     [Lit ''IPSec gateway '', Field ''IPSec_gateway'',
      Lit ''\<newline>IPSec ID '', Field ''IPSec_ID'',
      Lit ''\<newline>IPSec secret '', Field ''IPSec_secret'',
      Lit ''\<newline>IKE Authmode '', Field ''IKE_Authmode'',
      Lit ''\<newline>Xauth username '', Field ''Xauth_username'',
      Lit ''\<newline>Xauth password '', Field ''Xauth_password'']"

text \<open>
  The operator \<^verbatim>\<open>%\<close> with a dictionary on its right runs through the format string from
  left to right. A conversion \<^verbatim>\<open>%(key)s\<close> looks the key up, raising \<^verbatim>\<open>KeyError\<close> when the
  dictionary does not have it, and puts \<^verbatim>\<open>str\<close> of the value, which for a string is the
  string itself.
\<close>

fun percent_format :: "piece list \<Rightarrow> (string \<rightharpoonup> string) \<Rightarrow> exn + string" where
  "percent_format [] m = Inr []"
| "percent_format (Lit s # ps) m =
     (case percent_format ps m of Inl e \<Rightarrow> Inl e | Inr r \<Rightarrow> Inr (s @ r))"
| "percent_format (Field k # ps) m =
     (case m k of
        None \<Rightarrow> Inl (KeyError k)
      | Some v \<Rightarrow> (case percent_format ps m of Inl e \<Rightarrow> Inl e | Inr r \<Rightarrow> Inr (v @ r)))"

text \<open>
  \<^verbatim>\<open>
  def create_config_file(self):
      with open(self.temp_config_path, "w+") as f:
          print("..." % self.config, file=f)
  \<close>
  Opening with mode \<^verbatim>\<open>w+\<close> creates the file or empties it, before the format string is
  evaluated. \<^verbatim>\<open>print\<close> writes the text and one newline. An exception in the block closes
  the file and leaves the block. \<^verbatim>\<open>open\<close> can fail, and so can the writing, in the world
  where the file has been emptied: then the exception of the write leaves the block, and
  the file holds what the failed write left in it.
\<close>

definition create_config_file :: "opsys \<Rightarrow> VPNC \<Rightarrow> world \<Rightarrow> unit outcome \<times> world" where
  "create_config_file os self w =
     (case open_error os (temp_config_path self) w of
        Some msg \<Rightarrow> (Raises (OSError msg), w)
      | None \<Rightarrow>
          (let w1 = w\<lparr>files := (files w)(temp_config_path self \<mapsto> [])\<rparr>
           in case percent_format config_template (config self) of
                Inl e \<Rightarrow> (Raises e, w1)
              | Inr s \<Rightarrow>
                  (case write_error os (temp_config_path self) (s @ ''\<newline>'') w1 of
                     Some (e, left) \<Rightarrow>
                       (Raises e, w1\<lparr>files := (files w1)(temp_config_path self \<mapsto> left)\<rparr>)
                   | None \<Rightarrow>
                       (Returns (),
                        w1\<lparr>files :=
                             (files w1)(temp_config_path self \<mapsto> s @ ''\<newline>'')\<rparr>))))"

subsection \<open>move_config_file, remove_config_file\<close>

text \<open>
  \<^verbatim>\<open>
  def move_config_file(self):
      process_call(["mv", self.temp_config_path, self.config_folder])
      process_call(["chown", "root:root", self.config_path])
      process_call(["chmod", "600", self.config_path])
  \<close>
\<close>

definition move_config_file :: "opsys \<Rightarrow> VPNC \<Rightarrow> world \<Rightarrow> unit outcome \<times> world" where
  "move_config_file os self w =
     then_run (process_call os [''mv'', temp_config_path self, config_folder self] w) (\<lambda>_ w1.
     then_run (process_call os [''chown'', ''root:root'', config_path self] w1) (\<lambda>_ w2.
     then_run (process_call os [''chmod'', ''600'', config_path self] w2) (\<lambda>_ w3.
     (Returns (), w3))))"

text \<open>
  \<^verbatim>\<open>except subprocess.CalledProcessError\<close> catches the instances of that class and of its
  subclasses. \<^verbatim>\<open>ProcessException\<close> and \<^verbatim>\<open>OSError\<close> are not among them.
\<close>

fun is_CalledProcessError :: "exn \<Rightarrow> bool" where
  "is_CalledProcessError (CalledProcessError rc c) = True"
| "is_CalledProcessError e = False"

text \<open>
  \<^verbatim>\<open>
  def remove_config_file(self):
      try:
          process_call(["rm", self.config_path])
          return True
      except subprocess.CalledProcessError:
          return False
  \<close>
\<close>

definition remove_config_file :: "opsys \<Rightarrow> VPNC \<Rightarrow> world \<Rightarrow> bool outcome \<times> world" where
  "remove_config_file os self w =
     (case process_call os [''rm'', config_path self] w of
        (Returns r, w1) \<Rightarrow> (Returns True, w1)
      | (Raises e, w1) \<Rightarrow>
          (if is_CalledProcessError e then (Returns False, w1) else (Raises e, w1)))"

subsection \<open>connect, disconnect\<close>

text \<open>
  \<^verbatim>\<open>
  def connect(self):
      self.create_config_file()
      self.move_config_file()
      process_call(["vpnc", "tempvpnc"])

  def disconnect(self):
      process_call(["vpnc-disconnect"])
      self.remove_config_file()
  \<close>
  Both return \<^verbatim>\<open>None\<close>; what \<^verbatim>\<open>remove_config_file\<close> returns is dropped.
\<close>

definition connect :: "opsys \<Rightarrow> VPNC \<Rightarrow> world \<Rightarrow> unit outcome \<times> world" where
  "connect os self w =
     then_run (create_config_file os self w) (\<lambda>_ w1.
     then_run (move_config_file os self w1) (\<lambda>_ w2.
     then_run (process_call os [''vpnc'', ''tempvpnc''] w2) (\<lambda>_ w3.
     (Returns (), w3))))"

definition disconnect :: "opsys \<Rightarrow> VPNC \<Rightarrow> world \<Rightarrow> unit outcome \<times> world" where
  "disconnect os self w =
     then_run (process_call os [''vpnc-disconnect''] w) (\<lambda>_ w1.
     then_run (remove_config_file os self w1) (\<lambda>_ w2.
     (Returns (), w2)))"

subsection \<open>vpn: a generator under contextlib.contextmanager\<close>

text \<open>
  A generator function with one \<^verbatim>\<open>yield\<close>, as the three things its caller can do with
  it: run it from the start to the \<^verbatim>\<open>yield\<close>, resume it at the \<^verbatim>\<open>yield\<close> with
  \<^verbatim>\<open>next\<close>, and resume it there with \<^verbatim>\<open>throw\<close>, which raises the given exception at the
  \<^verbatim>\<open>yield\<close>. Each either reaches a \<^verbatim>\<open>yield\<close>, ends the generator (\<^verbatim>\<open>StopIteration\<close>), or
  lets an exception out.
\<close>

datatype gen_result = Yielded | Stopped | Thrown exn

record generator =
  run_to_yield :: "world \<Rightarrow> gen_result \<times> world"
  resume_next :: "world \<Rightarrow> gen_result \<times> world"
  resume_throw :: "exn \<Rightarrow> world \<Rightarrow> gen_result \<times> world"

text \<open>
  \<^verbatim>\<open>
  @contextmanager
  def vpn(self):
      self.connect()
      yield
      self.disconnect()
  \<close>
  The \<^verbatim>\<open>yield\<close> stands in no \<^verbatim>\<open>try\<close> statement, so an exception raised at it leaves the
  generator at once.
\<close>

definition vpn :: "opsys \<Rightarrow> VPNC \<Rightarrow> generator" where
  "vpn os self =
     \<lparr>run_to_yield = (\<lambda>w.
        case connect os self w of
          (Raises e, w1) \<Rightarrow> (Thrown e, w1)
        | (Returns u, w1) \<Rightarrow> (Yielded, w1)),
      resume_next = (\<lambda>w.
        case disconnect os self w of
          (Raises e, w1) \<Rightarrow> (Thrown e, w1)
        | (Returns u, w1) \<Rightarrow> (Stopped, w1)),
      resume_throw = (\<lambda>e w. (Thrown e, w))\<rparr>"

text \<open>
  The context manager that \<^verbatim>\<open>contextlib.contextmanager\<close> makes of a generator.
  \<^verbatim>\<open>__enter__\<close> runs the generator to its \<^verbatim>\<open>yield\<close>. \<^verbatim>\<open>__exit__\<close> without an exception
  resumes it with \<^verbatim>\<open>next\<close> and expects it to end; with an exception it throws the
  exception in, and returns true (the exception is swallowed) when the generator ends,
  false when the same exception comes back out.
\<close>

definition cm_enter :: "generator \<Rightarrow> world \<Rightarrow> unit outcome \<times> world" where
  "cm_enter g w =
     (case run_to_yield g w of
        (Yielded, w1) \<Rightarrow> (Returns (), w1)
      | (Stopped, w1) \<Rightarrow> (Raises (RuntimeError ''generator didn't yield''), w1)
      | (Thrown e, w1) \<Rightarrow> (Raises e, w1))"

definition cm_exit :: "generator \<Rightarrow> exn option \<Rightarrow> world \<Rightarrow> bool outcome \<times> world" where
  "cm_exit g raised w =
     (case raised of
        None \<Rightarrow>
          (case resume_next g w of
             (Stopped, w1) \<Rightarrow> (Returns False, w1)
           | (Yielded, w1) \<Rightarrow> (Raises (RuntimeError ''generator didn't stop''), w1)
           | (Thrown e, w1) \<Rightarrow> (Raises e, w1))
      | Some v \<Rightarrow>
          (case resume_throw g v w of
             (Stopped, w1) \<Rightarrow> (Returns True, w1)
           | (Yielded, w1) \<Rightarrow>
               (Raises (RuntimeError ''generator didn't stop after throw()''), w1)
           | (Thrown e, w1) \<Rightarrow> (if e = v then (Returns False, w1) else (Raises e, w1))))"

text \<open>
  The statement \<^verbatim>\<open>with g: body\<close>. An exception of the body goes to \<^verbatim>\<open>__exit__\<close> and is
  raised again unless \<^verbatim>\<open>__exit__\<close> returns true.
\<close>

definition with_block ::
  "generator \<Rightarrow> (world \<Rightarrow> unit outcome \<times> world) \<Rightarrow> world \<Rightarrow> unit outcome \<times> world" where
  "with_block g body w =
     (case cm_enter g w of
        (Raises e, w1) \<Rightarrow> (Raises e, w1)
      | (Returns u, w1) \<Rightarrow>
          (case body w1 of
             (Returns v, w2) \<Rightarrow>
               (case cm_exit g None w2 of
                  (Raises e, w3) \<Rightarrow> (Raises e, w3)
                | (Returns b, w3) \<Rightarrow> (Returns (), w3))
           | (Raises e, w2) \<Rightarrow>
               (case cm_exit g (Some e) w2 of
                  (Raises e', w3) \<Rightarrow> (Raises e', w3)
                | (Returns b, w3) \<Rightarrow> (if b then (Returns (), w3) else (Raises e, w3)))))"

section \<open>Notions of the specification\<close>

text \<open>
  The lines of a text: the pieces that end at a newline, and what follows the last
  newline when that is not empty.
\<close>

fun lines_from :: "string \<Rightarrow> string \<Rightarrow> string list" where
  "lines_from cur [] = (if cur = [] then [] else [cur])"
| "lines_from cur (c # cs) =
     (if c = CHR 0x0A then cur # lines_from [] cs else lines_from (cur @ [c]) cs)"

definition lines_of :: "string \<Rightarrow> string list" where
  "lines_of s = lines_from [] s"

text \<open>
  The text of the configuration file as the specification gives its format: six lines in
  a fixed order, each a fixed key text, a space and a value, each ended by a newline.
\<close>

definition config_text :: "string \<Rightarrow> string \<Rightarrow> string \<Rightarrow> string \<Rightarrow> string \<Rightarrow> string \<Rightarrow> string" where
  "config_text gw ident secret authmode username password =
     ''IPSec gateway '' @ gw @ ''\<newline>''
     @ ''IPSec ID '' @ ident @ ''\<newline>''
     @ ''IPSec secret '' @ secret @ ''\<newline>''
     @ ''IKE Authmode '' @ authmode @ ''\<newline>''
     @ ''Xauth username '' @ username @ ''\<newline>''
     @ ''Xauth password '' @ password @ ''\<newline>''"

text \<open>The six keys of the configuration, in the order of the format string.\<close>

definition required_keys :: "string list" where
  "required_keys =
     [''IPSec_gateway'', ''IPSec_ID'', ''IPSec_secret'', ''IKE_Authmode'',
      ''Xauth_username'', ''Xauth_password'']"

text \<open>
  The specification's words for a sequence of external steps: the commands run one
  after the other, each in the world the one before left; the first that cannot be
  started or exits with a code other than zero raises, and the rest do not run.
\<close>

fun run_in_order :: "opsys \<Rightarrow> argv list \<Rightarrow> world \<Rightarrow> unit outcome \<times> world" where
  "run_in_order os [] w = (Returns (), w)"
| "run_in_order os (c # cs) w =
     (let w1 = w\<lparr>files := snd (spawn os c w), calls := calls w @ [c]\<rparr>
      in case fst (spawn os c w) of
           Spawn_failed msg \<Rightarrow> (Raises (OSError msg), w1)
         | Exited rc out err \<Rightarrow>
             (if rc = 0 then run_in_order os cs w1
              else (Raises (ProcessFailure
                      \<lparr>returncode = rc, cmd = c, stdout = out, stderr = err\<rparr>), w1)))"

text \<open>
  The external steps of \<^verbatim>\<open>connect\<close> as the specification lists them: the move into
  the privileged directory, the change of owner to the superuser, the change of mode to
  reading and writing by the owner only, and the program that connects, with the profile
  name \<^verbatim>\<open>tempvpnc\<close>.
\<close>

definition connect_steps :: "VPNC \<Rightarrow> argv list" where
  "connect_steps self =
     [[''mv'', temp_config_path self, config_folder self],
      [''chown'', ''root:root'', config_path self],
      [''chmod'', ''600'', config_path self],
      [''vpnc'', ''tempvpnc'']]"

section \<open>A simulated operating system\<close>

text \<open>
  For the concrete cases: every command starts, prints nothing, leaves the files as they
  are and exits with the code a table gives it; every file can be opened and written.
\<close>

definition sim_os :: "(argv \<Rightarrow> int) \<Rightarrow> opsys" where
  "sim_os code =
     \<lparr>spawn = (\<lambda>c w. (Exited (code c) [] [], files w)), open_error = (\<lambda>p w. None),
      write_error = (\<lambda>p t w. None)\<rparr>"

text \<open>
  The same, but the encoding of the file takes no text: every write raises
  \<^verbatim>\<open>UnicodeEncodeError\<close> and leaves the file empty.
\<close>

definition sim_os_no_encoding :: "(argv \<Rightarrow> int) \<Rightarrow> opsys" where
  "sim_os_no_encoding code =
     (sim_os code)\<lparr>write_error :=
        (\<lambda>p t w. Some (UnicodeEncodeError ''codec can't encode character'', []))\<rparr>"

definition empty_world :: world where
  "empty_world = \<lparr>files = Map.empty, calls = []\<rparr>"

text \<open>
  \<^verbatim>\<open>str\<close> of a list of strings, for strings of printable ASCII characters other than
  the apostrophe and the backslash: each in apostrophes, a comma and a space between
  them, in brackets.
\<close>

fun comma_sep :: "string list \<Rightarrow> string" where
  "comma_sep [] = []"
| "comma_sep [x] = CHR 0x27 # x @ [CHR 0x27]"
| "comma_sep (x # y # ys) = CHR 0x27 # x @ [CHR 0x27] @ '', '' @ comma_sep (y # ys)"

definition plain_list_str :: "argv \<Rightarrow> string" where
  "plain_list_str xs = ''['' @ comma_sep xs @ '']''"

text \<open>
  Three interpreters with the module in \<^verbatim>\<open>/opt/vpnc\<close>, on Linux, on Darwin and on
  FreeBSD (where \<^verbatim>\<open>os.path.join\<close> is \<^verbatim>\<open>posixpath.join\<close> as well), and the instance the
  first gives for \<^verbatim>\<open>VPNC(config=c)\<close>.
\<close>

definition linux_env :: pyenv where
  "linux_env = \<lparr>sys_platform = ''linux'', HERE = ''/opt/vpnc'', os_path_join = posixpath_join\<rparr>"

definition darwin_env :: pyenv where
  "darwin_env = \<lparr>sys_platform = ''darwin'', HERE = ''/opt/vpnc'', os_path_join = posixpath_join\<rparr>"

definition freebsd_env :: pyenv where
  "freebsd_env = \<lparr>sys_platform = ''freebsd13'', HERE = ''/opt/vpnc'', os_path_join = posixpath_join\<rparr>"

definition linux_vpnc :: "(string \<rightharpoonup> string) \<Rightarrow> VPNC" where
  "linux_vpnc c =
     \<lparr>config = c, config_file = ''tempvpnc.conf'',
      temp_config_path = ''/opt/vpnc/tempvpnc.conf'', config_folder = ''/etc/vpnc'',
      config_path = ''/etc/vpnc/tempvpnc.conf''\<rparr>"

text \<open>A configuration with all six keys.\<close>

definition sample_config :: "string \<rightharpoonup> string" where
  "sample_config =
     [''IPSec_gateway'' \<mapsto> ''gw.example.com'', ''IPSec_ID'' \<mapsto> ''team'',
      ''IPSec_secret'' \<mapsto> ''s3cret'', ''IKE_Authmode'' \<mapsto> ''psk'',
      ''Xauth_username'' \<mapsto> ''alice'', ''Xauth_password'' \<mapsto> ''pw'']"

text \<open>
  The text \<^verbatim>\<open>create_config_file\<close> writes for it.
\<close>

definition sample_text :: string where
  "sample_text =
     ''IPSec gateway gw.example.com\<newline>IPSec ID team\<newline>IPSec secret s3cret\<newline>IKE Authmode psk\<newline>Xauth username alice\<newline>Xauth password pw\<newline>''"

text \<open>
  The same with a secret of two lines, and with the password left out.
\<close>

definition newline_config :: "string \<rightharpoonup> string" where
  "newline_config = sample_config(''IPSec_secret'' \<mapsto> ''a\<newline>b'')"

definition no_password_config :: "string \<rightharpoonup> string" where
  "no_password_config = sample_config(''Xauth_password'' := None)"

text \<open>
  Exit codes under which \<^verbatim>\<open>chown\<close> fails and every other command succeeds.
\<close>

definition chown_fails :: "argv \<Rightarrow> int" where
  "chown_fails c = (if take 1 c = [''chown''] then 1 else 0)"

text \<open>
  Two bodies for a \<^verbatim>\<open>with\<close> statement: one raises, one does nothing.
\<close>

definition failing_body :: "world \<Rightarrow> unit outcome \<times> world" where
  "failing_body w = (Raises (OtherError ''boom''), w)"

definition idle_body :: "world \<Rightarrow> unit outcome \<times> world" where
  "idle_body w = (Returns (), w)"

section \<open>Lemmas on sequencing and on the calls made\<close>

lemma then_run_Raises: "then_run (Raises e, w) k = (Raises e, w)"
  by (simp add: then_run_def)

lemma then_run_Returns: "then_run (Returns a, w) k = k a w"
  by (simp add: then_run_def)

lemma then_run_assoc:
  "then_run (then_run r f) g = then_run r (\<lambda>a w. then_run (f a w) g)"
  by (cases r; cases "fst r") (simp_all add: then_run_def)

lemma process_call_calls:
  "calls (snd (process_call os c w)) = calls w @ [c]"
  by (simp add: process_call_def split: prod.splits proc_result.splits)

lemma remove_config_file_calls:
  "calls (snd (remove_config_file os self w)) = calls w @ [[''rm'', config_path self]]"
proof -
  obtain r w1 where p: "process_call os [''rm'', config_path self] w = (r, w1)"
    by (cases "process_call os [''rm'', config_path self] w")
  have "calls w1 = calls w @ [[''rm'', config_path self]]"
    using process_call_calls [of os "[''rm'', config_path self]" w] p by simp
  with p show ?thesis
    by (cases r) (simp_all add: remove_config_file_def)
qed

lemma run_in_order_Cons:
  "run_in_order os (c # cs) w = then_run (process_call os c w) (\<lambda>r w1. run_in_order os cs w1)"
  by (cases "spawn os c w"; cases "fst (spawn os c w)")
     (simp_all add: process_call_def then_run_def)

lemma darwin_not_linux:
  assumes "startswith s ''darwin''"
  shows "\<not> startswith s ''linux''"
proof
  assume "startswith s ''linux''"
  then have a: "take (length ''linux'') s = ''linux''"
    by (simp only: startswith_def)
  from assms have b: "take (length ''darwin'') s = ''darwin''"
    by (simp only: startswith_def)
  have "take (length ''linux'') (take (length ''darwin'') s) = take (length ''linux'') s"
    by (simp add: min_def)
  with a b show False by simp
qed

lemma create_config_file_calls:
  "calls (snd (create_config_file os self w)) = calls w"
  by (simp add: create_config_file_def Let_def split: option.splits sum.splits prod.splits)

lemma run_in_order_calls:
  "\<exists>n. n \<le> length cs \<and> calls (snd (run_in_order os cs w)) = calls w @ take n cs
       \<and> (fst (run_in_order os cs w) = Returns () \<longrightarrow> n = length cs)"
proof (induction cs arbitrary: w)
  case Nil
  show ?case by simp
next
  case (Cons c cs)
  let ?w1 = "w\<lparr>files := snd (spawn os c w), calls := calls w @ [c]\<rparr>"
  show ?case
  proof (cases "fst (spawn os c w)")
    case (Spawn_failed msg)
    then have "calls (snd (run_in_order os (c # cs) w)) = calls w @ take 1 (c # cs)"
      and "fst (run_in_order os (c # cs) w) \<noteq> Returns ()"
      by simp_all
    then show ?thesis by (intro exI [of _ 1]) simp
  next
    case (Exited rc out err)
    show ?thesis
    proof (cases "rc = 0")
      case True
      from Cons.IH [of ?w1] obtain n where n: "n \<le> length cs"
        "calls (snd (run_in_order os cs ?w1)) = calls ?w1 @ take n cs"
        "fst (run_in_order os cs ?w1) = Returns () \<longrightarrow> n = length cs"
        by blast
      with Exited True show ?thesis
        by (intro exI [of _ "Suc n"]) simp
    next
      case False
      with Exited have "calls (snd (run_in_order os (c # cs) w)) = calls w @ take 1 (c # cs)"
        and "fst (run_in_order os (c # cs) w) \<noteq> Returns ()"
        by simp_all
      then show ?thesis by (intro exI [of _ 1]) simp
    qed
  qed
qed

lemma then_run_move_connect:
  "then_run (move_config_file os self w1)
     (\<lambda>_ w2. then_run (process_call os [''vpnc'', ''tempvpnc''] w2) (\<lambda>_ w3. (Returns (), w3))) =
   run_in_order os (connect_steps self) w1"
  by (simp only: connect_steps_def move_config_file_def run_in_order_Cons run_in_order.simps(1)
      then_run_assoc then_run_Returns)

section \<open>Lemmas on the format string and on lines\<close>

lemma lines_from_line:
  "CHR 0x0A \<notin> set v \<Longrightarrow> lines_from cur (v @ CHR 0x0A # rest) = (cur @ v) # lines_from [] rest"
  by (induction v arbitrary: cur) auto

lemma percent_format_config_text:
  assumes "m ''IPSec_gateway'' = Some gw" and "m ''IPSec_ID'' = Some ident"
    and "m ''IPSec_secret'' = Some secret" and "m ''IKE_Authmode'' = Some authmode"
    and "m ''Xauth_username'' = Some username" and "m ''Xauth_password'' = Some password"
  shows "\<exists>t. percent_format config_template m = Inr t
     \<and> t @ ''\<newline>'' = config_text gw ident secret authmode username password"
  using assms by (simp add: config_template_def config_text_def)

lemma lines_of_config_text:
  assumes "CHR 0x0A \<notin> set gw \<union> set ident \<union> set secret \<union> set authmode
                 \<union> set username \<union> set password"
  shows "lines_of (config_text gw ident secret authmode username password) =
     [''IPSec gateway '' @ gw, ''IPSec ID '' @ ident, ''IPSec secret '' @ secret,
      ''IKE Authmode '' @ authmode, ''Xauth username '' @ username,
      ''Xauth password '' @ password]"
  using assms by (simp add: config_text_def lines_of_def lines_from_line)

lemma create_config_file_written:
  assumes "open_error os (temp_config_path self) w = None"
    and "percent_format config_template (config self) = Inr t"
    and "write_error os (temp_config_path self) (t @ ''\<newline>'')
           (w\<lparr>files := (files w)(temp_config_path self \<mapsto> [])\<rparr>) = None"
  shows "create_config_file os self w =
     (Returns (), w\<lparr>files := (files w)(temp_config_path self \<mapsto> t @ ''\<newline>'')\<rparr>)"
  using assms by (simp add: create_config_file_def)

lemma create_config_file_write_fails:
  assumes "open_error os (temp_config_path self) w = None"
    and "percent_format config_template (config self) = Inr t"
    and "write_error os (temp_config_path self) (t @ ''\<newline>'')
           (w\<lparr>files := (files w)(temp_config_path self \<mapsto> [])\<rparr>) = Some (e, left)"
  shows "create_config_file os self w =
     (Raises e, w\<lparr>files := (files w)(temp_config_path self \<mapsto> left)\<rparr>)"
  using assms by (simp add: create_config_file_def)

lemma percent_format_missing:
  "find (\<lambda>k. m k = None) required_keys = Some k \<Longrightarrow>
   percent_format config_template m = Inl (KeyError k)"
  by (auto simp add: required_keys_def config_template_def split: if_splits)

section \<open>The simulated runs\<close>

lemma config_text_sample:
  "config_text ''gw.example.com'' ''team'' ''s3cret'' ''psk'' ''alice'' ''pw'' = sample_text"
  by (simp add: config_text_def sample_text_def)

lemma create_config_file_sample:
  "create_config_file (sim_os code) (linux_vpnc sample_config) empty_world =
     (Returns (), \<lparr>files = [''/opt/vpnc/tempvpnc.conf'' \<mapsto> sample_text], calls = []\<rparr>)"
  by (simp add: create_config_file_def sim_os_def linux_vpnc_def empty_world_def
      sample_config_def config_template_def sample_text_def)

lemma connect_sample:
  "connect (sim_os (\<lambda>c. 0)) (linux_vpnc sample_config) empty_world =
     (Returns (),
      \<lparr>files = [''/opt/vpnc/tempvpnc.conf'' \<mapsto> sample_text],
       calls = [[''mv'', ''/opt/vpnc/tempvpnc.conf'', ''/etc/vpnc''],
                [''chown'', ''root:root'', ''/etc/vpnc/tempvpnc.conf''],
                [''chmod'', ''600'', ''/etc/vpnc/tempvpnc.conf''],
                [''vpnc'', ''tempvpnc'']]\<rparr>)"
  by (simp add: connect_def move_config_file_def then_run_def create_config_file_sample)
     (simp add: process_call_def sim_os_def linux_vpnc_def)

section \<open>The claims\<close>

text \<open>
  C1. The claim: when the removal command exits with a code other than zero,
  \<^verbatim>\<open>remove_config_file\<close> catches the failure and returns \<^verbatim>\<open>False\<close>. The code does not:
  \<^verbatim>\<open>process_call\<close> raises \<^verbatim>\<open>ProcessException\<close>, the \<^verbatim>\<open>except\<close> clause names
  \<^verbatim>\<open>subprocess.CalledProcessError\<close>, and the exception leaves \<^verbatim>\<open>remove_config_file\<close>.
  Here \<^verbatim>\<open>rm\<close> exits with code 1.
\<close>

theorem remove_config_file_rm_fails:
  "remove_config_file (sim_os (\<lambda>c. 1)) (linux_vpnc Map.empty) empty_world =
     (Raises (ProcessFailure
        \<lparr>returncode = 1, cmd = [''rm'', ''/etc/vpnc/tempvpnc.conf''], stdout = [], stderr = []\<rparr>),
      \<lparr>files = Map.empty, calls = [[''rm'', ''/etc/vpnc/tempvpnc.conf'']]\<rparr>)"
  by (simp add: remove_config_file_def process_call_def sim_os_def linux_vpnc_def empty_world_def)

text \<open>
  C2. The claim: with one of the six keys missing, \<^verbatim>\<open>create_config_file\<close> completes
  and the file holds a placeholder for the missing value. It does not complete. Here the
  password is missing: the call raises \<^verbatim>\<open>KeyError\<close> and the file is empty.
\<close>

theorem create_config_file_missing_key_counterexample:
  "no_password_config ''Xauth_password'' = None
   \<and> fst (create_config_file (sim_os (\<lambda>c. 0)) (linux_vpnc no_password_config) empty_world) =
       Raises (KeyError ''Xauth_password'')
   \<and> files (snd (create_config_file (sim_os (\<lambda>c. 0)) (linux_vpnc no_password_config) empty_world))
       ''/opt/vpnc/tempvpnc.conf'' = Some []"
  by (simp add: create_config_file_def sim_os_def linux_vpnc_def empty_world_def
      no_password_config_def sample_config_def config_template_def)

text \<open>
  C2, amended. When one of the six keys is missing and the temporary file can be opened,
  \<^verbatim>\<open>create_config_file\<close> raises \<^verbatim>\<open>KeyError\<close> for the first missing key in the order of the
  format string; nothing is written, and the temporary file, created or emptied by
  \<^verbatim>\<open>open\<close>, is left empty.
\<close>

theorem create_config_file_missing_key:
  assumes "k \<in> set required_keys" and "config self k = None"
    and "open_error os (temp_config_path self) w = None"
  shows "\<exists>k'. find (\<lambda>k. config self k = None) required_keys = Some k'
     \<and> create_config_file os self w =
         (Raises (KeyError k'), w\<lparr>files := (files w)(temp_config_path self \<mapsto> [])\<rparr>)"
proof -
  from assms(1,2) obtain k' where f: "find (\<lambda>k. config self k = None) required_keys = Some k'"
    by (cases "find (\<lambda>k. config self k = None) required_keys") (auto simp add: find_None_iff)
  from percent_format_missing [OF f] assms(3)
  have "create_config_file os self w =
         (Raises (KeyError k'), w\<lparr>files := (files w)(temp_config_path self \<mapsto> [])\<rparr>)"
    by (simp add: create_config_file_def)
  with f show ?thesis by blast
qed

theorem create_config_file_missing_key_witness:
  "''Xauth_password'' \<in> set required_keys
   \<and> config (linux_vpnc no_password_config) ''Xauth_password'' = None
   \<and> create_config_file (sim_os (\<lambda>c. 0)) (linux_vpnc no_password_config) empty_world =
       (Raises (KeyError ''Xauth_password''),
        \<lparr>files = [''/opt/vpnc/tempvpnc.conf'' \<mapsto> []], calls = []\<rparr>)"
proof -
  have a: "''Xauth_password'' \<in> set required_keys"
    by (simp add: required_keys_def)
  have b: "config (linux_vpnc no_password_config) ''Xauth_password'' = None"
    by (simp add: linux_vpnc_def no_password_config_def)
  have c: "open_error (sim_os (\<lambda>c. 0)) (temp_config_path (linux_vpnc no_password_config)) empty_world = None"
    by (simp add: sim_os_def)
  have f: "find (\<lambda>k. config (linux_vpnc no_password_config) k = None) required_keys = Some ''Xauth_password''"
    by (simp add: required_keys_def linux_vpnc_def no_password_config_def sample_config_def)
  from create_config_file_missing_key [OF a b c] f
  have "create_config_file (sim_os (\<lambda>c. 0)) (linux_vpnc no_password_config) empty_world =
         (Raises (KeyError ''Xauth_password''),
          empty_world\<lparr>files := (files empty_world)
            (temp_config_path (linux_vpnc no_password_config) \<mapsto> [])\<rparr>)"
    by simp
  with a b show ?thesis by (simp add: linux_vpnc_def empty_world_def)
qed

text \<open>
  C3. \<^verbatim>\<open>with vpn_client.vpn(): body\<close> calls \<^verbatim>\<open>connect\<close> first, and the body runs only
  when \<^verbatim>\<open>connect\<close> returned. When the body returns, \<^verbatim>\<open>disconnect\<close> runs in the world the
  body left, and the statement ends as \<^verbatim>\<open>disconnect\<close> does. When the body raises, the
  statement raises the same exception in the world the body left: \<^verbatim>\<open>disconnect\<close> is not
  called.
\<close>

theorem vpn_scope:
  "with_block (vpn os self) body w =
     (case connect os self w of
        (Raises e, w1) \<Rightarrow> (Raises e, w1)
      | (Returns u, w1) \<Rightarrow>
          (case body w1 of
             (Raises e, w2) \<Rightarrow> (Raises e, w2)
           | (Returns v, w2) \<Rightarrow> disconnect os self w2))"
proof -
  obtain r w1 where c: "connect os self w = (r, w1)"
    by (cases "connect os self w")
  show ?thesis
  proof (cases r)
    case (Raises e)
    with c show ?thesis by (simp add: with_block_def cm_enter_def vpn_def)
  next
    case (Returns u)
    obtain rb w2 where b: "body w1 = (rb, w2)"
      by (cases "body w1")
    show ?thesis
    proof (cases rb)
      case (Raises e)
      with c Returns b show ?thesis
        by (simp add: with_block_def cm_enter_def cm_exit_def vpn_def)
    next
      case inner: (Returns v)
      obtain rd w3 where d: "disconnect os self w2 = (rd, w3)"
        by (cases "disconnect os self w2")
      with c Returns b inner show ?thesis
        by (cases rd) (simp_all add: with_block_def cm_enter_def cm_exit_def vpn_def)
    qed
  qed
qed

theorem vpn_scope_witness:
  "with_block (vpn (sim_os (\<lambda>c. 0)) (linux_vpnc sample_config)) failing_body empty_world =
     (Raises (OtherError ''boom''),
      \<lparr>files = [''/opt/vpnc/tempvpnc.conf'' \<mapsto> sample_text],
       calls = [[''mv'', ''/opt/vpnc/tempvpnc.conf'', ''/etc/vpnc''],
                [''chown'', ''root:root'', ''/etc/vpnc/tempvpnc.conf''],
                [''chmod'', ''600'', ''/etc/vpnc/tempvpnc.conf''],
                [''vpnc'', ''tempvpnc'']]\<rparr>)
   \<and> with_block (vpn (sim_os (\<lambda>c. 0)) (linux_vpnc sample_config)) idle_body empty_world =
     (Returns (),
      \<lparr>files = [''/opt/vpnc/tempvpnc.conf'' \<mapsto> sample_text],
       calls = [[''mv'', ''/opt/vpnc/tempvpnc.conf'', ''/etc/vpnc''],
                [''chown'', ''root:root'', ''/etc/vpnc/tempvpnc.conf''],
                [''chmod'', ''600'', ''/etc/vpnc/tempvpnc.conf''],
                [''vpnc'', ''tempvpnc''],
                [''vpnc-disconnect''],
                [''rm'', ''/etc/vpnc/tempvpnc.conf'']]\<rparr>)"
  using vpn_scope [of "sim_os (\<lambda>c. 0)" "linux_vpnc sample_config" failing_body empty_world]
    vpn_scope [of "sim_os (\<lambda>c. 0)" "linux_vpnc sample_config" idle_body empty_world]
  by (simp add: connect_sample failing_body_def idle_body_def)
     (simp add: disconnect_def remove_config_file_def then_run_def process_call_def
        sim_os_def linux_vpnc_def)

text \<open>
  C4. The message of a \<^verbatim>\<open>ProcessException\<close>. With a negative return code it names the
  signal whose number is the negated code when the table of signals has it, and says
  \<^verbatim>\<open>unknown signal N\<close>, \<open>N\<close> the negated code, when it has not. With a positive return code
  it reports a non-zero exit status.
\<close>

theorem ProcessException_str_cases:
  "(returncode e < 0 \<and> signals (- returncode e) = Some name \<longrightarrow>
      ProcessException_str signals str_of e =
        ''Command '' @ [CHR 0x27] @ str_of (cmd e) @ [CHR 0x27] @ '' died with <Signals.''
          @ name @ '': '' @ show_int (- returncode e) @ ''>.'')
   \<and> (returncode e < 0 \<and> signals (- returncode e) = None \<longrightarrow>
      ProcessException_str signals str_of e =
        ''Command '' @ [CHR 0x27] @ str_of (cmd e) @ [CHR 0x27] @ '' died with unknown signal ''
          @ show_int (- returncode e) @ ''.'')
   \<and> (0 < returncode e \<longrightarrow>
      ProcessException_str signals str_of e =
        ''Command '' @ [CHR 0x27] @ str_of (cmd e) @ [CHR 0x27]
          @ '' returned non-zero exit status '' @ show_int (returncode e) @ ''.'')"
  by (simp add: ProcessException_str_def repr_Signals_def)

theorem ProcessException_str_witness:
  "ProcessException_str [9 \<mapsto> ''SIGKILL''] plain_list_str
     \<lparr>returncode = - 9, cmd = [''vpnc'', ''tempvpnc''], stdout = [], stderr = []\<rparr> =
     ''Command '' @ [CHR 0x27] @ plain_list_str [''vpnc'', ''tempvpnc''] @ [CHR 0x27]
       @ '' died with <Signals.SIGKILL: 9>.''
   \<and> ProcessException_str [9 \<mapsto> ''SIGKILL''] plain_list_str
     \<lparr>returncode = - 77, cmd = [''vpnc'', ''tempvpnc''], stdout = [], stderr = []\<rparr> =
     ''Command '' @ [CHR 0x27] @ plain_list_str [''vpnc'', ''tempvpnc''] @ [CHR 0x27]
       @ '' died with unknown signal 77.''
   \<and> ProcessException_str [9 \<mapsto> ''SIGKILL''] plain_list_str
     \<lparr>returncode = 2, cmd = [''vpnc'', ''tempvpnc''], stdout = [], stderr = []\<rparr> =
     ''Command '' @ [CHR 0x27] @ plain_list_str [''vpnc'', ''tempvpnc''] @ [CHR 0x27]
       @ '' returned non-zero exit status 2.''"
proof -
  have n: "show_int 9 = ''9''" "show_int 77 = ''77''" "show_int 2 = ''2''"
    by (simp_all add: show_int_def digits.simps digit_char_def)
  show ?thesis
    using
      ProcessException_str_cases [of "\<lparr>returncode = - 9, cmd = [''vpnc'', ''tempvpnc''], stdout = [], stderr = []\<rparr>"
        "[9 \<mapsto> ''SIGKILL'']" "''SIGKILL''" plain_list_str]
      ProcessException_str_cases [of "\<lparr>returncode = - 77, cmd = [''vpnc'', ''tempvpnc''], stdout = [], stderr = []\<rparr>"
        "[9 \<mapsto> ''SIGKILL'']" "''SIGKILL''" plain_list_str]
      ProcessException_str_cases [of "\<lparr>returncode = 2, cmd = [''vpnc'', ''tempvpnc''], stdout = [], stderr = []\<rparr>"
        "[9 \<mapsto> ''SIGKILL'']" "''SIGKILL''" plain_list_str]
    by (simp add: n)
qed

text \<open>
  C5. For a command that was started and ran to its end: \<^verbatim>\<open>process_call\<close> raises exactly
  when the exit code is not zero; the exception is a \<^verbatim>\<open>ProcessException\<close> whose return code
  is that exit code and whose command is the argument list passed in; with exit code zero
  the call returns the code, the captured output and the captured error output.
\<close>

theorem process_call_raises_iff_nonzero:
  assumes "spawn os c w = (Exited rc out err, fs)"
  shows "((\<exists>e. fst (process_call os c w) = Raises e) \<longleftrightarrow> rc \<noteq> 0)
       \<and> (rc \<noteq> 0 \<longrightarrow> fst (process_call os c w) =
             Raises (ProcessFailure \<lparr>returncode = rc, cmd = c, stdout = out, stderr = err\<rparr>))
       \<and> (rc = 0 \<longrightarrow> fst (process_call os c w) = Returns (0, out, err))"
  using assms by (simp add: process_call_def)

theorem process_call_witness:
  "spawn (sim_os (\<lambda>c. 2)) [''rm'', ''/etc/vpnc/tempvpnc.conf''] empty_world = (Exited 2 [] [], Map.empty)
   \<and> fst (process_call (sim_os (\<lambda>c. 2)) [''rm'', ''/etc/vpnc/tempvpnc.conf''] empty_world) =
       Raises (ProcessFailure \<lparr>returncode = 2, cmd = [''rm'', ''/etc/vpnc/tempvpnc.conf''], stdout = [], stderr = []\<rparr>)"
proof -
  have h: "spawn (sim_os (\<lambda>c. 2)) [''rm'', ''/etc/vpnc/tempvpnc.conf''] empty_world = (Exited 2 [] [], Map.empty)"
    by (simp add: sim_os_def empty_world_def)
  show ?thesis
    using h process_call_raises_iff_nonzero [OF h] by simp
qed

text \<open>
  C6. The claim: with all six keys present the file has exactly six lines. A value may
  hold a newline, and is written as it is. Here the secret has two lines, and the file has
  seven.
\<close>

theorem create_config_file_six_lines_counterexample:
  "list_all (\<lambda>k. newline_config k \<noteq> None) required_keys
   \<and> fst (create_config_file (sim_os (\<lambda>c. 0)) (linux_vpnc newline_config) empty_world) = Returns ()
   \<and> map_option lines_of
       (files (snd (create_config_file (sim_os (\<lambda>c. 0)) (linux_vpnc newline_config) empty_world))
          ''/opt/vpnc/tempvpnc.conf'') =
       Some [''IPSec gateway gw.example.com'', ''IPSec ID team'', ''IPSec secret a'', ''b'',
             ''IKE Authmode psk'', ''Xauth username alice'', ''Xauth password pw'']"
  by (simp add: create_config_file_def sim_os_def linux_vpnc_def empty_world_def
      newline_config_def sample_config_def config_template_def required_keys_def lines_of_def)

text \<open>
  C6, amended. When all six keys are present, the temporary file can be opened and the
  write of the text does not fail (the file's encoding takes every value, and the system
  accepts the write), \<^verbatim>\<open>create_config_file\<close> returns, and the file holds the six fixed
  key texts in the fixed order, each followed by a space, the value of its key as it is,
  and a newline. When the write fails, \<^verbatim>\<open>create_config_file\<close> raises the exception of the
  write instead. When no value holds a newline, the text is exactly six lines, each the
  key text, a space and the value.
\<close>

theorem create_config_file_six_lines:
  assumes "open_error os (temp_config_path self) w = None"
    and "config self ''IPSec_gateway'' = Some gw" and "config self ''IPSec_ID'' = Some ident"
    and "config self ''IPSec_secret'' = Some secret"
    and "config self ''IKE_Authmode'' = Some authmode"
    and "config self ''Xauth_username'' = Some username"
    and "config self ''Xauth_password'' = Some password"
  shows "(write_error os (temp_config_path self)
            (config_text gw ident secret authmode username password)
            (w\<lparr>files := (files w)(temp_config_path self \<mapsto> [])\<rparr>) = None \<longrightarrow>
          create_config_file os self w =
            (Returns (),
             w\<lparr>files := (files w)(temp_config_path self \<mapsto>
                  config_text gw ident secret authmode username password)\<rparr>))
       \<and> (\<forall>e left. write_error os (temp_config_path self)
            (config_text gw ident secret authmode username password)
            (w\<lparr>files := (files w)(temp_config_path self \<mapsto> [])\<rparr>) = Some (e, left) \<longrightarrow>
          create_config_file os self w =
            (Raises e, w\<lparr>files := (files w)(temp_config_path self \<mapsto> left)\<rparr>))
       \<and> (CHR 0x0A \<notin> set gw \<union> set ident \<union> set secret \<union> set authmode
                 \<union> set username \<union> set password \<longrightarrow>
          lines_of (config_text gw ident secret authmode username password) =
            [''IPSec gateway '' @ gw, ''IPSec ID '' @ ident, ''IPSec secret '' @ secret,
             ''IKE Authmode '' @ authmode, ''Xauth username '' @ username,
             ''Xauth password '' @ password])"
proof -
  from percent_format_config_text [OF assms(2-7)] obtain t
    where t: "percent_format config_template (config self) = Inr t"
      and n: "t @ ''\<newline>'' = config_text gw ident secret authmode username password"
    by (elim exE conjE)
  show ?thesis
  proof (intro conjI impI allI)
    assume "write_error os (temp_config_path self)
            (config_text gw ident secret authmode username password)
            (w\<lparr>files := (files w)(temp_config_path self \<mapsto> [])\<rparr>) = None"
    with n have "write_error os (temp_config_path self) (t @ ''\<newline>'')
            (w\<lparr>files := (files w)(temp_config_path self \<mapsto> [])\<rparr>) = None"
      by (simp only:)
    from create_config_file_written [OF assms(1) t this] n
    show "create_config_file os self w =
            (Returns (),
             w\<lparr>files := (files w)(temp_config_path self \<mapsto>
                  config_text gw ident secret authmode username password)\<rparr>)"
      by (simp only:)
  next
    fix e left
    assume "write_error os (temp_config_path self)
            (config_text gw ident secret authmode username password)
            (w\<lparr>files := (files w)(temp_config_path self \<mapsto> [])\<rparr>) = Some (e, left)"
    with n have "write_error os (temp_config_path self) (t @ ''\<newline>'')
            (w\<lparr>files := (files w)(temp_config_path self \<mapsto> [])\<rparr>) = Some (e, left)"
      by (simp only:)
    from create_config_file_write_fails [OF assms(1) t this]
    show "create_config_file os self w =
            (Raises e, w\<lparr>files := (files w)(temp_config_path self \<mapsto> left)\<rparr>)" .
  next
    assume "CHR 0x0A \<notin> set gw \<union> set ident \<union> set secret \<union> set authmode
                 \<union> set username \<union> set password"
    then show "lines_of (config_text gw ident secret authmode username password) =
            [''IPSec gateway '' @ gw, ''IPSec ID '' @ ident, ''IPSec secret '' @ secret,
             ''IKE Authmode '' @ authmode, ''Xauth username '' @ username,
             ''Xauth password '' @ password]"
      by (rule lines_of_config_text)
  qed
qed

theorem create_config_file_six_lines_witness:
  "create_config_file (sim_os (\<lambda>c. 0)) (linux_vpnc sample_config) empty_world =
     (Returns (), \<lparr>files = [''/opt/vpnc/tempvpnc.conf'' \<mapsto> sample_text], calls = []\<rparr>)
   \<and> create_config_file (sim_os_no_encoding (\<lambda>c. 0)) (linux_vpnc sample_config) empty_world =
     (Raises (UnicodeEncodeError ''codec can't encode character''),
      \<lparr>files = [''/opt/vpnc/tempvpnc.conf'' \<mapsto> []], calls = []\<rparr>)
   \<and> lines_of sample_text =
       [''IPSec gateway gw.example.com'', ''IPSec ID team'', ''IPSec secret s3cret'',
        ''IKE Authmode psk'', ''Xauth username alice'', ''Xauth password pw'']"
proof -
  have o: "open_error (sim_os (\<lambda>c. 0)) (temp_config_path (linux_vpnc sample_config)) empty_world = None"
    "open_error (sim_os_no_encoding (\<lambda>c. 0)) (temp_config_path (linux_vpnc sample_config)) empty_world = None"
    by (simp_all add: sim_os_def sim_os_no_encoding_def)
  have k: "config (linux_vpnc sample_config) ''IPSec_gateway'' = Some ''gw.example.com''"
    "config (linux_vpnc sample_config) ''IPSec_ID'' = Some ''team''"
    "config (linux_vpnc sample_config) ''IPSec_secret'' = Some ''s3cret''"
    "config (linux_vpnc sample_config) ''IKE_Authmode'' = Some ''psk''"
    "config (linux_vpnc sample_config) ''Xauth_username'' = Some ''alice''"
    "config (linux_vpnc sample_config) ''Xauth_password'' = Some ''pw''"
    by (simp_all add: linux_vpnc_def sample_config_def)
  have a: "write_error (sim_os (\<lambda>c. 0)) p t v = None" for p t v
    by (simp add: sim_os_def)
  have b: "write_error (sim_os_no_encoding (\<lambda>c. 0)) p t v =
      Some (UnicodeEncodeError ''codec can't encode character'', [])" for p t v
    by (simp add: sim_os_no_encoding_def)
  have nl: "CHR 0x0A \<notin> set ''gw.example.com'' \<union> set ''team'' \<union> set ''s3cret'' \<union> set ''psk''
      \<union> set ''alice'' \<union> set ''pw''"
    by simp
  have p: "temp_config_path (linux_vpnc sample_config) = ''/opt/vpnc/tempvpnc.conf''"
    by (simp add: linux_vpnc_def)
  note good = create_config_file_six_lines [OF o(1) k]
  note fail = create_config_file_six_lines [OF o(2) k]
  from good [THEN conjunct1, rule_format, OF a]
  have 1: "create_config_file (sim_os (\<lambda>c. 0)) (linux_vpnc sample_config) empty_world =
     (Returns (), \<lparr>files = [''/opt/vpnc/tempvpnc.conf'' \<mapsto> sample_text], calls = []\<rparr>)"
    by (simp add: p config_text_sample empty_world_def)
  from fail [THEN conjunct2, THEN conjunct1, rule_format, OF b]
  have 2: "create_config_file (sim_os_no_encoding (\<lambda>c. 0)) (linux_vpnc sample_config) empty_world =
     (Raises (UnicodeEncodeError ''codec can't encode character''),
      \<lparr>files = [''/opt/vpnc/tempvpnc.conf'' \<mapsto> []], calls = []\<rparr>)"
    by (simp add: p empty_world_def)
  from good [THEN conjunct2, THEN conjunct2, rule_format, OF nl]
  have 3: "lines_of sample_text =
       [''IPSec gateway gw.example.com'', ''IPSec ID team'', ''IPSec secret s3cret'',
        ''IKE Authmode psk'', ''Xauth username alice'', ''Xauth password pw'']"
    by (simp add: config_text_sample)
  from 1 2 3 show ?thesis by (intro conjI)
qed

text \<open>
  C7. \<^verbatim>\<open>connect\<close> writes the configuration file first; when that raises, nothing else
  happens. Then it runs four commands in this order: \<^verbatim>\<open>mv\<close> of the temporary file into the
  configuration folder, \<^verbatim>\<open>chown root:root\<close> and \<^verbatim>\<open>chmod 600\<close> of the file there, and
  \<^verbatim>\<open>vpnc tempvpnc\<close>. The first of them that exits with a code other than zero raises a
  \<^verbatim>\<open>ProcessException\<close> with that code and that command, and the later ones do not run.
\<close>

theorem connect_sequence:
  "connect os self w =
     (case create_config_file os self w of
        (Raises e, w1) \<Rightarrow> (Raises e, w1)
      | (Returns u, w1) \<Rightarrow> run_in_order os (connect_steps self) w1)
   \<and> (\<exists>n. n \<le> length (connect_steps self)
         \<and> calls (snd (connect os self w)) = calls w @ take n (connect_steps self)
         \<and> (fst (connect os self w) = Returns () \<longrightarrow> n = length (connect_steps self)))"
proof -
  obtain r w1 where c: "create_config_file os self w = (r, w1)"
    by (cases "create_config_file os self w")
  have w1: "calls w1 = calls w"
    using create_config_file_calls [of os self w] c by simp
  show ?thesis
  proof (cases r)
    case (Raises e)
    with c have "connect os self w = (Raises e, w1)"
      by (simp add: connect_def then_run_Raises)
    with c Raises w1 show ?thesis
      by (simp add: exI [of _ 0])
  next
    case (Returns u)
    with c have "connect os self w = run_in_order os (connect_steps self) w1"
      by (simp add: connect_def then_run_Returns then_run_move_connect)
    with c Returns w1 run_in_order_calls [of "connect_steps self" os w1] show ?thesis
      by simp
  qed
qed

theorem connect_sequence_witness:
  "connect (sim_os chown_fails) (linux_vpnc sample_config) empty_world =
     (Raises (ProcessFailure
        \<lparr>returncode = 1, cmd = [''chown'', ''root:root'', ''/etc/vpnc/tempvpnc.conf''],
         stdout = [], stderr = []\<rparr>),
      \<lparr>files = [''/opt/vpnc/tempvpnc.conf'' \<mapsto> sample_text],
       calls = [[''mv'', ''/opt/vpnc/tempvpnc.conf'', ''/etc/vpnc''],
                [''chown'', ''root:root'', ''/etc/vpnc/tempvpnc.conf'']]\<rparr>)
   \<and> connect (sim_os (\<lambda>c. 0)) (linux_vpnc sample_config) empty_world =
     (Returns (),
      \<lparr>files = [''/opt/vpnc/tempvpnc.conf'' \<mapsto> sample_text],
       calls = [[''mv'', ''/opt/vpnc/tempvpnc.conf'', ''/etc/vpnc''],
                [''chown'', ''root:root'', ''/etc/vpnc/tempvpnc.conf''],
                [''chmod'', ''600'', ''/etc/vpnc/tempvpnc.conf''],
                [''vpnc'', ''tempvpnc'']]\<rparr>)"
proof -
  note a = connect_sequence [of "sim_os chown_fails" "linux_vpnc sample_config" empty_world,
      THEN conjunct1]
  note b = connect_sequence [of "sim_os (\<lambda>c. 0)" "linux_vpnc sample_config" empty_world,
      THEN conjunct1]
  from a b show ?thesis
    by (simp add: create_config_file_sample connect_steps_def)
       (simp add: sim_os_def linux_vpnc_def chown_fails_def)
qed

text \<open>
  C8. With the default file name and no folder given, the temporary path is
  \<^verbatim>\<open>os.path.join\<close> of the module's directory and \<^verbatim>\<open>tempvpnc.conf\<close>; the path of the
  configuration is \<^verbatim>\<open>os.path.join\<close> of \<^verbatim>\<open>/etc/vpnc\<close> and that name where the platform's name
  starts with \<^verbatim>\<open>linux\<close>, and of \<^verbatim>\<open>/usr/local/etc/vpnc\<close> and that name where it starts with
  \<^verbatim>\<open>darwin\<close>. On both, \<^verbatim>\<open>os.path.join\<close> is \<^verbatim>\<open>posixpath.join\<close>, which gives
  \<^verbatim>\<open>/etc/vpnc/tempvpnc.conf\<close> and \<^verbatim>\<open>/usr/local/etc/vpnc/tempvpnc.conf\<close>.
\<close>

theorem VPNC_init_default_paths:
  "(startswith (sys_platform env) ''linux'' \<longrightarrow>
      (\<exists>v. VPNC_init env cfg default_config_file None = Inr v
         \<and> temp_config_path v = os_path_join env (HERE env) ''tempvpnc.conf''
         \<and> config_path v = os_path_join env ''/etc/vpnc'' ''tempvpnc.conf''))
   \<and> (startswith (sys_platform env) ''darwin'' \<longrightarrow>
      (\<exists>v. VPNC_init env cfg default_config_file None = Inr v
         \<and> temp_config_path v = os_path_join env (HERE env) ''tempvpnc.conf''
         \<and> config_path v = os_path_join env ''/usr/local/etc/vpnc'' ''tempvpnc.conf''))
   \<and> posixpath_join ''/etc/vpnc'' ''tempvpnc.conf'' = ''/etc/vpnc/tempvpnc.conf''
   \<and> posixpath_join ''/usr/local/etc/vpnc'' ''tempvpnc.conf'' = ''/usr/local/etc/vpnc/tempvpnc.conf''"
proof (intro conjI impI)
  assume "startswith (sys_platform env) ''linux''"
  then show "\<exists>v. VPNC_init env cfg default_config_file None = Inr v
         \<and> temp_config_path v = os_path_join env (HERE env) ''tempvpnc.conf''
         \<and> config_path v = os_path_join env ''/etc/vpnc'' ''tempvpnc.conf''"
    by (simp add: VPNC_init_def default_config_file_def)
next
  assume d: "startswith (sys_platform env) ''darwin''"
  then have "\<not> startswith (sys_platform env) ''linux''" by (rule darwin_not_linux)
  with d show "\<exists>v. VPNC_init env cfg default_config_file None = Inr v
         \<and> temp_config_path v = os_path_join env (HERE env) ''tempvpnc.conf''
         \<and> config_path v = os_path_join env ''/usr/local/etc/vpnc'' ''tempvpnc.conf''"
    by (simp add: VPNC_init_def default_config_file_def)
next
  show "posixpath_join ''/etc/vpnc'' ''tempvpnc.conf'' = ''/etc/vpnc/tempvpnc.conf''"
    by (simp add: posixpath_join_def startswith_def)
next
  show "posixpath_join ''/usr/local/etc/vpnc'' ''tempvpnc.conf'' = ''/usr/local/etc/vpnc/tempvpnc.conf''"
    by (simp add: posixpath_join_def startswith_def)
qed

theorem VPNC_init_default_paths_witness:
  "startswith (sys_platform linux_env) ''linux''
   \<and> (\<exists>v. VPNC_init linux_env None default_config_file None = Inr v
         \<and> temp_config_path v = ''/opt/vpnc/tempvpnc.conf''
         \<and> config_path v = ''/etc/vpnc/tempvpnc.conf'')
   \<and> startswith (sys_platform darwin_env) ''darwin''
   \<and> (\<exists>v. VPNC_init darwin_env None default_config_file None = Inr v
         \<and> temp_config_path v = ''/opt/vpnc/tempvpnc.conf''
         \<and> config_path v = ''/usr/local/etc/vpnc/tempvpnc.conf'')"
proof -
  have l: "startswith (sys_platform linux_env) ''linux''"
    by (simp add: linux_env_def startswith_def)
  have d: "startswith (sys_platform darwin_env) ''darwin''"
    by (simp add: darwin_env_def startswith_def)
  have t: "posixpath_join ''/opt/vpnc'' ''tempvpnc.conf'' = ''/opt/vpnc/tempvpnc.conf''"
    by (simp add: posixpath_join_def startswith_def)
  note p = VPNC_init_default_paths [of linux_env None]
  note q = VPNC_init_default_paths [of darwin_env None]
  from p l obtain v where
    "VPNC_init linux_env None default_config_file None = Inr v"
    "temp_config_path v = os_path_join linux_env (HERE linux_env) ''tempvpnc.conf''"
    "config_path v = os_path_join linux_env ''/etc/vpnc'' ''tempvpnc.conf''"
    by blast
  with p t have 1: "\<exists>v. VPNC_init linux_env None default_config_file None = Inr v
         \<and> temp_config_path v = ''/opt/vpnc/tempvpnc.conf''
         \<and> config_path v = ''/etc/vpnc/tempvpnc.conf''"
    by (simp add: linux_env_def)
  from q d obtain u where
    "VPNC_init darwin_env None default_config_file None = Inr u"
    "temp_config_path u = os_path_join darwin_env (HERE darwin_env) ''tempvpnc.conf''"
    "config_path u = os_path_join darwin_env ''/usr/local/etc/vpnc'' ''tempvpnc.conf''"
    by blast
  with q t have 2: "\<exists>v. VPNC_init darwin_env None default_config_file None = Inr v
         \<and> temp_config_path v = ''/opt/vpnc/tempvpnc.conf''
         \<and> config_path v = ''/usr/local/etc/vpnc/tempvpnc.conf''"
    by (simp add: darwin_env_def)
  from l d 1 2 show ?thesis by blast
qed

text \<open>
  C9. On a platform whose name starts with neither \<^verbatim>\<open>linux\<close> nor \<^verbatim>\<open>darwin\<close>, the
  constructor called without a folder raises \<^verbatim>\<open>TypeError\<close>, whatever the configuration and
  the file name: there is no instance.
\<close>

theorem VPNC_init_unsupported_platform:
  "\<not> startswith (sys_platform env) ''linux'' \<Longrightarrow> \<not> startswith (sys_platform env) ''darwin'' \<Longrightarrow>
   VPNC_init env cfg file None =
     Inl (TypeError ''expected str, bytes or os.PathLike object, not NoneType'')"
  by (simp add: VPNC_init_def)

theorem VPNC_init_unsupported_platform_witness:
  "\<not> startswith (sys_platform freebsd_env) ''linux''
   \<and> \<not> startswith (sys_platform freebsd_env) ''darwin''
   \<and> VPNC_init freebsd_env None default_config_file None =
       Inl (TypeError ''expected str, bytes or os.PathLike object, not NoneType'')"
proof -
  have a: "\<not> startswith (sys_platform freebsd_env) ''linux''"
    and b: "\<not> startswith (sys_platform freebsd_env) ''darwin''"
    by (simp_all add: startswith_def freebsd_env_def)
  from VPNC_init_unsupported_platform [OF a b] a b show ?thesis by simp
qed

text \<open>
  C10. \<^verbatim>\<open>disconnect\<close> calls \<^verbatim>\<open>vpnc-disconnect\<close> first; the only call that can follow it
  is the \<^verbatim>\<open>rm\<close> of the configuration file. When \<^verbatim>\<open>vpnc-disconnect\<close> exits with a code other
  than zero, \<^verbatim>\<open>disconnect\<close> raises the \<^verbatim>\<open>ProcessException\<close> of that call, \<^verbatim>\<open>rm\<close> is not
  called, and the files are as \<^verbatim>\<open>vpnc-disconnect\<close> left them.
\<close>

theorem disconnect_order:
  "(\<exists>rest. calls (snd (disconnect os self w)) = calls w @ [''vpnc-disconnect''] # rest
       \<and> (rest = [] \<or> rest = [[''rm'', config_path self]]))
   \<and> (\<forall>rc out err fs. spawn os [''vpnc-disconnect''] w = (Exited rc out err, fs) \<and> rc \<noteq> 0 \<longrightarrow>
        disconnect os self w =
          (Raises (ProcessFailure
             \<lparr>returncode = rc, cmd = [''vpnc-disconnect''], stdout = out, stderr = err\<rparr>),
           w\<lparr>files := fs, calls := calls w @ [[''vpnc-disconnect'']]\<rparr>))"
proof (intro conjI allI impI)
  obtain r w1 where p: "process_call os [''vpnc-disconnect''] w = (r, w1)"
    by (cases "process_call os [''vpnc-disconnect''] w")
  have c1: "calls w1 = calls w @ [[''vpnc-disconnect'']]"
    using process_call_calls [of os "[''vpnc-disconnect'']" w] p by simp
  show "\<exists>rest. calls (snd (disconnect os self w)) = calls w @ [''vpnc-disconnect''] # rest
       \<and> (rest = [] \<or> rest = [[''rm'', config_path self]])"
  proof (cases r)
    case (Raises e)
    with p c1 show ?thesis by (simp add: disconnect_def then_run_def)
  next
    case (Returns a)
    obtain r2 w2 where q: "remove_config_file os self w1 = (r2, w2)"
      by (cases "remove_config_file os self w1")
    have "calls w2 = calls w1 @ [[''rm'', config_path self]]"
      using remove_config_file_calls [of os self w1] q by simp
    with Returns p q c1 show ?thesis
      by (cases r2) (simp_all add: disconnect_def then_run_def)
  qed
next
  fix rc out err fs
  assume "spawn os [''vpnc-disconnect''] w = (Exited rc out err, fs) \<and> rc \<noteq> 0"
  then show "disconnect os self w =
          (Raises (ProcessFailure
             \<lparr>returncode = rc, cmd = [''vpnc-disconnect''], stdout = out, stderr = err\<rparr>),
           w\<lparr>files := fs, calls := calls w @ [[''vpnc-disconnect'']]\<rparr>)"
    by (simp add: disconnect_def then_run_def process_call_def)
qed

theorem disconnect_order_witness:
  "spawn (sim_os (\<lambda>c. 3)) [''vpnc-disconnect''] empty_world = (Exited 3 [] [], Map.empty)
   \<and> disconnect (sim_os (\<lambda>c. 3)) (linux_vpnc sample_config) empty_world =
       (Raises (ProcessFailure
          \<lparr>returncode = 3, cmd = [''vpnc-disconnect''], stdout = [], stderr = []\<rparr>),
        \<lparr>files = Map.empty, calls = [[''vpnc-disconnect'']]\<rparr>)"
proof -
  have h: "spawn (sim_os (\<lambda>c. 3)) [''vpnc-disconnect''] empty_world = (Exited 3 [] [], Map.empty)"
    by (simp add: sim_os_def empty_world_def)
  from disconnect_order [of "sim_os (\<lambda>c. 3)" "linux_vpnc sample_config" empty_world] h
  have "disconnect (sim_os (\<lambda>c. 3)) (linux_vpnc sample_config) empty_world =
       (Raises (ProcessFailure
          \<lparr>returncode = 3, cmd = [''vpnc-disconnect''], stdout = [], stderr = []\<rparr>),
        empty_world\<lparr>files := Map.empty, calls := calls empty_world @ [[''vpnc-disconnect'']]\<rparr>)"
    by simp
  with h show ?thesis by (simp add: empty_world_def)
qed

end
